theory Spec2Isabelle
  imports Complex_Main
begin

section \<open>Python strings\<close>

text \<open>
  A Python \<open>str\<close> is a sequence of code points. The model is \<open>string\<close>, each \<open>char\<close>
  read as one code point below 256; the three character tables below are Python's own
  (\<open>str.isalnum\<close>, \<open>str.isspace\<close>, \<open>str.lower\<close>) on that range, where lowering maps one
  code point to one code point. Code points from 256 on are outside the model.
\<close>

definition isalnum :: "char \<Rightarrow> bool" where
  "isalnum c =
     (let n = (of_char c :: nat) in
        (48 \<le> n \<and> n \<le> 57) \<or> (65 \<le> n \<and> n \<le> 90) \<or> (97 \<le> n \<and> n \<le> 122) \<or>
        n \<in> {170, 178, 179, 181, 185, 186, 188, 189, 190} \<or>
        (192 \<le> n \<and> n \<le> 214) \<or> (216 \<le> n \<and> n \<le> 246) \<or> (248 \<le> n \<and> n \<le> 255))"

definition isspace :: "char \<Rightarrow> bool" where
  "isspace c = ((of_char c :: nat) \<in> {9, 10, 11, 12, 13, 28, 29, 30, 31, 32, 133, 160})"

definition lower_char :: "char \<Rightarrow> char" where
  "lower_char c =
     (let n = (of_char c :: nat) in
        if (65 \<le> n \<and> n \<le> 90) \<or> (192 \<le> n \<and> n \<le> 214) \<or> (216 \<le> n \<and> n \<le> 222)
        then char_of (n + 32) else c)"

definition lower :: "string \<Rightarrow> string" where
  "lower s = map lower_char s"

definition lstrip :: "string \<Rightarrow> string" where
  "lstrip s = dropWhile isspace s"

definition rstrip :: "string \<Rightarrow> string" where
  "rstrip s = rev (dropWhile isspace (rev s))"

definition strip :: "string \<Rightarrow> string" where
  "strip s = rstrip (lstrip s)"

definition replace_char :: "char \<Rightarrow> char \<Rightarrow> string \<Rightarrow> string" where
  "replace_char a b s = map (\<lambda>c. if c = a then b else c) s"

section \<open>Values returned by \<open>json.loads\<close>\<close>

text \<open>
  \<open>json.loads\<close> returns \<open>None\<close>, a \<open>bool\<close>, an \<open>int\<close>, a \<open>float\<close>, a \<open>str\<close>, a \<open>list\<close> or a
  \<open>dict\<close> with string keys. Floats are kept abstract (the type variable \<open>'f\<close>). A \<open>dict\<close>
  is an association list read with \<open>map_of\<close>.
\<close>

datatype 'f json =
    JNull
  | JBool bool
  | JInt int
  | JFloat 'f
  | JStr string
  | JArr "'f json list"
  | JObj "(string \<times> 'f json) list"

text \<open>
  What the program takes from its libraries: \<open>json.loads\<close> (\<open>None\<close> when it raises), the
  truth value of a float, and the conversion to \<open>float\<close> that pydantic tries on a value that
  is neither \<open>None\<close> nor a \<open>float\<close> (\<open>None\<close> when it rejects the value).
\<close>

record 'f pylib =
  json_loads :: "string \<Rightarrow> 'f json option"
  float_bool :: "'f \<Rightarrow> bool"
  float_lax :: "'f json \<Rightarrow> 'f option"

datatype py_exc =
    JSONDecodeError
  | AttributeError
  | TypeError
  | ValidationError
  | OSError

text \<open>\<open>d.get(k)\<close> and \<open>d.get(k, default)\<close> on a \<open>dict\<close>.\<close>

definition dict_get :: "(string \<times> 'f json) list \<Rightarrow> string \<Rightarrow> 'f json" where
  "dict_get d k = (case map_of d k of None \<Rightarrow> JNull | Some v \<Rightarrow> v)"

definition dict_get_or :: "(string \<times> 'f json) list \<Rightarrow> string \<Rightarrow> 'f json \<Rightarrow> 'f json" where
  "dict_get_or d k dflt = (case map_of d k of None \<Rightarrow> dflt | Some v \<Rightarrow> v)"

text \<open>The truth value Python gives a value in \<open>not v\<close>.\<close>

fun truthy :: "'f pylib \<Rightarrow> 'f json \<Rightarrow> bool" where
  "truthy L JNull = False"
| "truthy L (JBool b) = b"
| "truthy L (JInt i) = (i \<noteq> 0)"
| "truthy L (JFloat x) = float_bool L x"
| "truthy L (JStr s) = (s \<noteq> [])"
| "truthy L (JArr xs) = (xs \<noteq> [])"
| "truthy L (JObj kvs) = (kvs \<noteq> [])"

text \<open>
  \<open>for x in v\<close>: a list gives its elements, a string its one-character strings, a dict
  its keys; anything else is not iterable.
\<close>

fun iterate :: "'f json \<Rightarrow> py_exc + 'f json list" where
  "iterate (JArr xs) = Inr xs"
| "iterate (JStr s) = Inr (map (\<lambda>c. JStr [c]) s)"
| "iterate (JObj kvs) = Inr (map (\<lambda>kv. JStr (fst kv)) kvs)"
| "iterate v = Inl TypeError"

section \<open>Models.py\<close>

record 'f Ingredient =
  name :: string
  quantity :: "'f option"
  unit :: "string option"

record 'f Recipe =
  title :: string
  description :: string
  prep_time :: string
  cook_time :: string
  servings :: string
  ingredients :: "'f Ingredient list"
  instructions :: "string list"

text \<open>
  Pydantic validates each argument of a model's constructor against the field's declared
  type and raises \<open>ValidationError\<close> when one fails: \<open>str\<close> takes a string only,
  \<open>Optional[str]\<close> also \<open>None\<close>, \<open>Optional[float]\<close> takes \<open>None\<close>, a float, or what converts
  to one, \<open>List[str]\<close> a list of strings.
\<close>

fun validate_str :: "'f json \<Rightarrow> py_exc + string" where
  "validate_str (JStr s) = Inr s"
| "validate_str v = Inl ValidationError"

fun validate_opt_str :: "'f json \<Rightarrow> py_exc + string option" where
  "validate_opt_str JNull = Inr None"
| "validate_opt_str (JStr s) = Inr (Some s)"
| "validate_opt_str v = Inl ValidationError"

fun validate_opt_float :: "'f pylib \<Rightarrow> 'f json \<Rightarrow> py_exc + 'f option" where
  "validate_opt_float L JNull = Inr None"
| "validate_opt_float L (JFloat x) = Inr (Some x)"
| "validate_opt_float L v =
     (case float_lax L v of None \<Rightarrow> Inl ValidationError | Some x \<Rightarrow> Inr (Some x))"

fun validate_str_items :: "'f json list \<Rightarrow> py_exc + string list" where
  "validate_str_items [] = Inr []"
| "validate_str_items (v # vs) =
     (case validate_str v of
        Inl e \<Rightarrow> Inl e
      | Inr s \<Rightarrow> (case validate_str_items vs of Inl e \<Rightarrow> Inl e | Inr ss \<Rightarrow> Inr (s # ss)))"

fun validate_str_list :: "'f json \<Rightarrow> py_exc + string list" where
  "validate_str_list (JArr vs) = validate_str_items vs"
| "validate_str_list v = Inl ValidationError"

text \<open>\<open>Ingredient(name=n, quantity=q, unit=u)\<close>\<close>

definition new_Ingredient ::
  "'f pylib \<Rightarrow> 'f json \<Rightarrow> 'f json \<Rightarrow> 'f json \<Rightarrow> py_exc + 'f Ingredient" where
  "new_Ingredient L n q u =
     (case (validate_str n, validate_opt_float L q, validate_opt_str u) of
        (Inr n', Inr q', Inr u') \<Rightarrow> Inr \<lparr>name = n', quantity = q', unit = u'\<rparr>
      | _ \<Rightarrow> Inl ValidationError)"

text \<open>
  \<open>Recipe(title=t, description=d, prep_time=p, cook_time=c, servings=s, ingredients=ings,
  instructions=ins)\<close>, where \<open>ings\<close> is already a list of \<open>Ingredient\<close> objects.
\<close>

definition new_Recipe ::
  "'f json \<Rightarrow> 'f json \<Rightarrow> 'f json \<Rightarrow> 'f json \<Rightarrow> 'f json \<Rightarrow> 'f Ingredient list \<Rightarrow> 'f json
     \<Rightarrow> py_exc + 'f Recipe" where
  "new_Recipe t d p c s ings ins =
     (case (validate_str t, validate_str d, validate_str p, validate_str c, validate_str s,
            validate_str_list ins) of
        (Inr t', Inr d', Inr p', Inr c', Inr s', Inr ins') \<Rightarrow>
          Inr \<lparr>title = t', description = d', prep_time = p', cook_time = c', servings = s',
               ingredients = ings, instructions = ins'\<rparr>
      | _ \<Rightarrow> Inl ValidationError)"

section \<open>Recipe\_Extractor\_Demo.py\<close>

record RecipeExtractor =
  api_key :: string
  model :: string

text \<open>
  The call \<open>lx.extract(text_or_documents, prompt_description, model_id, examples, api_key)\<close>:
  the prompt and the example are constants of the source, the other three arguments are the
  request. The service either raises (an \<open>Exception\<close>, with its message) or returns; what
  the program reads of a returned result is \<open>result.extractions\<close>, here \<open>None\<close> when the
  result is falsy, has no such attribute or holds \<open>None\<close> there.
\<close>

record lx_request =
  text_or_documents :: string
  model_id :: string
  request_key :: string

record Extraction =
  extraction_class :: string
  extraction_text :: string

datatype lx_outcome =
    LxRaises string
  | LxReturns "Extraction list option"

datatype log_level = DEBUG | INFO | WARNING | ERROR

datatype message =
    Initialized string
  | ExtractingFromText nat
  | TextTooShort
  | SkippingPartial
  | ErrorParsingExtraction py_exc
  | ExtractionText string
  | SuccessfullyExtracted string
  | IngredientCount nat
  | InstructionCount nat
  | NoRecipeExtractions
  | ErrorDuringExtraction string
  | ReadingRecipeFrom string
  | InputFileEmpty
  | RecipeTextLength nat
  | ExtractingStructure
  | FailedToExtract
  | SavingTo string
  | CreatingHtml string
  | ErrorParsingRecipe py_exc
  | ApiKeyNotProvided

datatype event =
    Log log_level message
  | LxExtract lx_request
  | PrintSummary string string

text \<open>Lines 186 to 194: the loop that turns the ingredient dictionaries into objects.\<close>

fun ingredient_of :: "'f pylib \<Rightarrow> 'f json \<Rightarrow> py_exc + 'f Ingredient" where
  "ingredient_of L (JObj ing) =
     new_Ingredient L (dict_get_or ing ''name'' (JStr '''')) (dict_get ing ''quantity'')
       (dict_get ing ''unit'')"
| "ingredient_of L v = Inl AttributeError"

fun ingredients_loop ::
  "'f pylib \<Rightarrow> 'f Ingredient list \<Rightarrow> 'f json list \<Rightarrow> py_exc + 'f Ingredient list" where
  "ingredients_loop L acc [] = Inr acc"
| "ingredients_loop L acc (ing # rest) =
     (case ingredient_of L ing of
        Inl e \<Rightarrow> Inl e
      | Inr ingredient \<Rightarrow> ingredients_loop L (acc @ [ingredient]) rest)"

text \<open>
  Lines 178 to 211, the body of the inner \<open>try\<close> for one extraction: it ends in
  \<open>continue\<close> (\<open>Skipped\<close>), in an exception (\<open>Failed\<close>) or in \<open>return recipe\<close> (\<open>Built\<close>).
\<close>

datatype 'f conversion = Skipped | Failed py_exc | Built "'f Recipe"

definition recipe_of_dict :: "'f pylib \<Rightarrow> (string \<times> 'f json) list \<Rightarrow> 'f conversion" where
  "recipe_of_dict L recipe_data =
     (if \<not> truthy L (dict_get recipe_data ''title'') then Skipped
      else
        (case iterate (dict_get_or recipe_data ''ingredients'' (JArr [])) of
           Inl e \<Rightarrow> Failed e
         | Inr items \<Rightarrow>
             (case ingredients_loop L [] items of
                Inl e \<Rightarrow> Failed e
              | Inr ings \<Rightarrow>
                  (case new_Recipe
                          (dict_get_or recipe_data ''title'' (JStr ''''))
                          (dict_get_or recipe_data ''description'' (JStr ''''))
                          (dict_get_or recipe_data ''prep_time'' (JStr ''''))
                          (dict_get_or recipe_data ''cook_time'' (JStr ''''))
                          (dict_get_or recipe_data ''servings'' (JStr ''''))
                          ings
                          (dict_get_or recipe_data ''instructions'' (JArr [])) of
                     Inl e \<Rightarrow> Failed e
                   | Inr recipe \<Rightarrow> Built recipe))))"

definition convert :: "'f pylib \<Rightarrow> Extraction \<Rightarrow> 'f conversion" where
  "convert L extraction =
     (case json_loads L (extraction_text extraction) of
        None \<Rightarrow> Failed JSONDecodeError
      | Some (JObj recipe_data) \<Rightarrow> recipe_of_dict L recipe_data
      | Some v \<Rightarrow> Failed AttributeError)"

text \<open>Lines 174 to 215: the loop over \<open>result.extractions\<close>, with what it logs.\<close>

fun extractions_loop :: "'f pylib \<Rightarrow> Extraction list \<Rightarrow> event list \<times> 'f Recipe option" where
  "extractions_loop L [] = ([], None)"
| "extractions_loop L (extraction # rest) =
     (if extraction_class extraction = ''Recipe'' then
        (case convert L extraction of
           Skipped \<Rightarrow>
             (let (evs, r) = extractions_loop L rest in (Log DEBUG SkippingPartial # evs, r))
         | Failed e \<Rightarrow>
             (let (evs, r) = extractions_loop L rest
              in (Log ERROR (ErrorParsingExtraction e)
                  # Log ERROR (ExtractionText (extraction_text extraction)) # evs, r))
         | Built recipe \<Rightarrow>
             ([Log INFO (SuccessfullyExtracted (title recipe)),
               Log INFO (IngredientCount (length (ingredients recipe))),
               Log INFO (InstructionCount (length (instructions recipe)))], Some recipe))
      else extractions_loop L rest)"

text \<open>\<open>RecipeExtractor.extract_recipe\<close>: the log and calls it makes, and what it returns.\<close>

definition extract_recipe ::
  "'f pylib \<Rightarrow> (lx_request \<Rightarrow> lx_outcome) \<Rightarrow> RecipeExtractor \<Rightarrow> string
     \<Rightarrow> event list \<times> 'f Recipe option" where
  "extract_recipe L lx self txt =
     (if length (strip txt) < 100 then
        ([Log INFO (ExtractingFromText (length txt)), Log WARNING TextTooShort], None)
      else
        (let req = \<lparr>text_or_documents = txt, model_id = model self, request_key = api_key self\<rparr>
         in case lx req of
              LxRaises msg \<Rightarrow>
                ([Log INFO (ExtractingFromText (length txt)), LxExtract req,
                  Log ERROR (ErrorDuringExtraction msg)], None)
            | LxReturns None \<Rightarrow>
                ([Log INFO (ExtractingFromText (length txt)), LxExtract req,
                  Log WARNING NoRecipeExtractions], None)
            | LxReturns (Some extractions) \<Rightarrow>
                (case extractions_loop L extractions of
                   (evs, Some recipe) \<Rightarrow>
                     (Log INFO (ExtractingFromText (length txt)) # LxExtract req # evs,
                      Some recipe)
                 | (evs, None) \<Rightarrow>
                     (Log INFO (ExtractingFromText (length txt)) # LxExtract req # evs
                        @ [Log WARNING NoRecipeExtractions], None))))"

section \<open>Recipe\_Extractor\_Main.py\<close>

text \<open>
  \<open>parse_recipe\<close> declares \<open>input_file: Path\<close>, opens it and reads \<open>input_file.stem\<close>;
  \<open>main\<close> passes the string \<open>"recipe.txt"\<close>. \<open>PathArg p s\<close> is a \<open>pathlib.Path\<close> that
  \<open>open\<close> reads as \<open>p\<close> and whose \<open>stem\<close> is \<open>s\<close>; \<open>StrArg p\<close> is a \<open>str\<close>, which \<open>open\<close>
  takes and which has no attribute \<open>stem\<close>.
\<close>

datatype file_arg = PathArg string string | StrArg string

fun arg_path :: "file_arg \<Rightarrow> string" where
  "arg_path (PathArg p s) = p"
| "arg_path (StrArg p) = p"

fun stem :: "file_arg \<Rightarrow> py_exc + string" where
  "stem (PathArg p s) = Inr s"
| "stem (StrArg p) = Inl AttributeError"

text \<open>
  What surrounds a run: the libraries, the extraction service, the text \<open>json.dump\<close>
  writes for \<open>recipe.model_dump()\<close> with \<open>indent=2, ensure_ascii=False\<close>, whether \<open>mkdir\<close>
  succeeds on a directory and whether a file can be opened for writing. The files are a map
  from a path's text to the file's content.
\<close>

record 'f world =
  lib :: "'f pylib"
  lx_extract :: "lx_request \<Rightarrow> lx_outcome"
  json_dump :: "'f Recipe \<Rightarrow> string"
  mkdir_ok :: "string \<Rightarrow> bool"
  writable :: "string \<Rightarrow> bool"

type_synonym files = "string \<rightharpoonup> string"

text \<open>Lines 68 to 71: the name of the output files.\<close>

definition safe_title :: "string \<Rightarrow> file_arg \<Rightarrow> py_exc + string" where
  "safe_title ttl input_file =
     (let s1 = rstrip (filter (\<lambda>c. isalnum c \<or> c \<in> {CHR '' '', CHR ''-'', CHR ''_''}) ttl);
          s2 = lower (replace_char CHR '' '' CHR ''_'' s1)
      in if s2 = [] then stem input_file else Inr s2)"

text \<open>
  \<open>generate_html_visualization(recipe, original_text)\<close> fills a fixed page with the
  recipe's fields and the original text; it is passed in as \<open>render\<close>.
\<close>

definition parse_recipe ::
  "'f world \<Rightarrow> ('f Recipe \<Rightarrow> string \<Rightarrow> string) \<Rightarrow> file_arg \<Rightarrow> string \<Rightarrow> string \<Rightarrow> string
     \<Rightarrow> files \<Rightarrow> bool \<times> files \<times> event list" where
  "parse_recipe W render input_file output_dir key mdl fs =
     (let ev0 = [Log INFO (ReadingRecipeFrom (arg_path input_file))] in
      case fs (arg_path input_file) of
        None \<Rightarrow> (False, fs, ev0 @ [Log ERROR (ErrorParsingRecipe OSError)])
      | Some recipe_text \<Rightarrow>
          if strip recipe_text = [] then (False, fs, ev0 @ [Log ERROR InputFileEmpty])
          else
            (let ev1 = ev0 @ [Log INFO (RecipeTextLength (length recipe_text)),
                              Log INFO (Initialized mdl), Log INFO ExtractingStructure];
                 (evs, r) = extract_recipe (lib W) (lx_extract W)
                              \<lparr>api_key = key, model = mdl\<rparr> recipe_text;
                 ev2 = ev1 @ evs
             in case r of
                  None \<Rightarrow> (False, fs, ev2 @ [Log ERROR FailedToExtract])
                | Some recipe \<Rightarrow>
                    if \<not> mkdir_ok W output_dir
                    then (False, fs, ev2 @ [Log ERROR (ErrorParsingRecipe OSError)])
                    else
                      (case safe_title (title recipe) input_file of
                         Inl e \<Rightarrow> (False, fs, ev2 @ [Log ERROR (ErrorParsingRecipe e)])
                       | Inr name' \<Rightarrow>
                           (let json_file = output_dir @ ''/'' @ name' @ ''.json'';
                                html_file = output_dir @ ''/'' @ name' @ ''.html'';
                                ev3 = ev2 @ [Log INFO (SavingTo json_file)]
                            in if \<not> writable W json_file
                               then (False, fs, ev3 @ [Log ERROR (ErrorParsingRecipe OSError)])
                               else
                                 (let fs1 = fs(json_file \<mapsto> json_dump W recipe);
                                      ev4 = ev3 @ [Log INFO (CreatingHtml html_file)]
                                  in if \<not> writable W html_file
                                     then (False, fs1,
                                           ev4 @ [Log ERROR (ErrorParsingRecipe OSError)])
                                     else (True,
                                           fs1(html_file \<mapsto> render recipe recipe_text),
                                           ev4 @ [PrintSummary json_file html_file]))))))"

text \<open>
  \<open>main\<close>: the environment is the one \<open>os.getenv\<close> reads after \<open>load_dotenv()\<close>;
  \<open>Path("./output")\<close> is the path \<open>output\<close>. The result is the exit code, with the files
  and the log the run leaves.
\<close>

definition main ::
  "'f world \<Rightarrow> ('f Recipe \<Rightarrow> string \<Rightarrow> string) \<Rightarrow> (string \<rightharpoonup> string) \<Rightarrow> files
     \<Rightarrow> int \<times> files \<times> event list" where
  "main W render env fs =
     (case env ''LANGEXTRACT_API_KEY'' of
        None \<Rightarrow> (1, fs, [Log ERROR ApiKeyNotProvided])
      | Some key \<Rightarrow>
          if key = [] then (1, fs, [Log ERROR ApiKeyNotProvided])
          else
            (let (success, fs', evs) =
                   parse_recipe W render (StrArg ''recipe.txt'') ''output'' key
                     ''gemini-2.5-flash'' fs
             in (if success then 0 else 1, fs', evs)))"

section \<open>The properties, stated\<close>

subsection \<open>Which payloads become a recipe\<close>

text \<open>
  The conditions under which the conversion of a parsed payload ends in a recipe, written
  field by field: the title is a string that is not empty; each of the other four text
  fields is left out or a string; \<open>ingredients\<close> is left out, or a list of objects whose
  \<open>name\<close>, \<open>quantity\<close> and \<open>unit\<close>, where present, fit their declared types (or an empty
  string or dictionary, over which the loop does not run); \<open>instructions\<close> is left out or
  a list of strings.
\<close>

fun is_JStr :: "'f json \<Rightarrow> bool" where
  "is_JStr (JStr s) = True"
| "is_JStr v = False"

fun str_of :: "'f json \<Rightarrow> string" where
  "str_of (JStr s) = s"
| "str_of v = []"

definition title_ok :: "(string \<times> 'f json) list \<Rightarrow> bool" where
  "title_ok d = (case map_of d ''title'' of Some (JStr s) \<Rightarrow> s \<noteq> [] | _ \<Rightarrow> False)"

definition text_field_ok :: "(string \<times> 'f json) list \<Rightarrow> string \<Rightarrow> bool" where
  "text_field_ok d k = (case map_of d k of None \<Rightarrow> True | Some v \<Rightarrow> is_JStr v)"

definition quantity_ok :: "'f pylib \<Rightarrow> 'f json \<Rightarrow> bool" where
  "quantity_ok L q =
     (case q of JNull \<Rightarrow> True | JFloat x \<Rightarrow> True | _ \<Rightarrow> float_lax L q \<noteq> None)"

definition unit_ok :: "'f json \<Rightarrow> bool" where
  "unit_ok u = (case u of JNull \<Rightarrow> True | _ \<Rightarrow> is_JStr u)"

definition ingredient_ok :: "'f pylib \<Rightarrow> 'f json \<Rightarrow> bool" where
  "ingredient_ok L v =
     (case v of
        JObj ing \<Rightarrow>
          (case map_of ing ''name'' of None \<Rightarrow> True | Some n \<Rightarrow> is_JStr n) \<and>
          (case map_of ing ''quantity'' of None \<Rightarrow> True | Some q \<Rightarrow> quantity_ok L q) \<and>
          (case map_of ing ''unit'' of None \<Rightarrow> True | Some u \<Rightarrow> unit_ok u)
      | _ \<Rightarrow> False)"

definition ingredients_ok :: "'f pylib \<Rightarrow> (string \<times> 'f json) list \<Rightarrow> bool" where
  "ingredients_ok L d =
     (case map_of d ''ingredients'' of
        None \<Rightarrow> True
      | Some (JArr items) \<Rightarrow> list_all (ingredient_ok L) items
      | Some (JStr s) \<Rightarrow> s = []
      | Some (JObj kvs) \<Rightarrow> kvs = []
      | Some v \<Rightarrow> False)"

definition instructions_ok :: "(string \<times> 'f json) list \<Rightarrow> bool" where
  "instructions_ok d =
     (case map_of d ''instructions'' of
        None \<Rightarrow> True
      | Some (JArr steps) \<Rightarrow> list_all is_JStr steps
      | Some v \<Rightarrow> False)"

definition schema_ok :: "'f pylib \<Rightarrow> (string \<times> 'f json) list \<Rightarrow> bool" where
  "schema_ok L d =
     (title_ok d \<and> text_field_ok d ''description'' \<and> text_field_ok d ''prep_time'' \<and>
      text_field_ok d ''cook_time'' \<and> text_field_ok d ''servings'' \<and> ingredients_ok L d \<and>
      instructions_ok d)"

text \<open>
  What the loop builds for an ingredient object that leaves a key out: an empty name, no
  quantity, no unit.
\<close>

definition missing_defaulted :: "'f json \<Rightarrow> 'f Ingredient \<Rightarrow> bool" where
  "missing_defaulted v i =
     (case v of
        JObj ing \<Rightarrow>
          (map_of ing ''name'' = None \<longrightarrow> name i = []) \<and>
          (map_of ing ''quantity'' = None \<longrightarrow> quantity i = None) \<and>
          (map_of ing ''unit'' = None \<longrightarrow> unit i = None)
      | _ \<Rightarrow> False)"

text \<open>
  An extraction the loop returns from: its class is \<open>Recipe\<close>, its payload parses to an
  object, and the object meets the conditions above.
\<close>

definition selectable :: "'f pylib \<Rightarrow> Extraction \<Rightarrow> bool" where
  "selectable L e =
     (extraction_class e = ''Recipe'' \<and>
      (case json_loads L (extraction_text e) of Some (JObj d) \<Rightarrow> schema_ok L d | _ \<Rightarrow> False))"

text \<open>
  The three conditions of the specification's sentence alone: the class is \<open>Recipe\<close>, the
  payload parses, and its title is not empty.
\<close>

definition claimed_selectable :: "'f pylib \<Rightarrow> Extraction \<Rightarrow> bool" where
  "claimed_selectable L e =
     (extraction_class e = ''Recipe'' \<and>
      (case json_loads L (extraction_text e) of Some (JObj d) \<Rightarrow> title_ok d | _ \<Rightarrow> False))"

definition built :: "'f conversion \<Rightarrow> 'f Recipe option" where
  "built c = (case c of Built r \<Rightarrow> Some r | _ \<Rightarrow> None)"

subsection \<open>A recipe written as the JSON object the prompt asks for\<close>

text \<open>
  \<open>recipe_encoded d r\<close>: the object \<open>d\<close> holds every field of the recipe \<open>r\<close>, all of them
  populated: seven keys, a title that is not empty, and for each ingredient its name, a
  float quantity and a unit.
\<close>

definition ingredient_encoded :: "'f json \<Rightarrow> 'f Ingredient \<Rightarrow> bool" where
  "ingredient_encoded v i =
     (case v of
        JObj ing \<Rightarrow>
          map_of ing ''name'' = Some (JStr (name i)) \<and>
          (case quantity i of
             None \<Rightarrow> False
           | Some q \<Rightarrow> map_of ing ''quantity'' = Some (JFloat q)) \<and>
          (case unit i of None \<Rightarrow> False | Some u \<Rightarrow> map_of ing ''unit'' = Some (JStr u))
      | _ \<Rightarrow> False)"

definition recipe_encoded :: "(string \<times> 'f json) list \<Rightarrow> 'f Recipe \<Rightarrow> bool" where
  "recipe_encoded d r =
     (title r \<noteq> [] \<and>
      map_of d ''title'' = Some (JStr (title r)) \<and>
      map_of d ''description'' = Some (JStr (description r)) \<and>
      map_of d ''prep_time'' = Some (JStr (prep_time r)) \<and>
      map_of d ''cook_time'' = Some (JStr (cook_time r)) \<and>
      map_of d ''servings'' = Some (JStr (servings r)) \<and>
      (case map_of d ''ingredients'' of
         Some (JArr items) \<Rightarrow> list_all2 ingredient_encoded items (ingredients r)
       | _ \<Rightarrow> False) \<and>
      map_of d ''instructions'' = Some (JArr (map JStr (instructions r))))"

subsection \<open>The file name as the specification words it\<close>

text \<open>
  Remove every character that is not alphanumeric, a space, a hyphen or an underscore, turn
  each space into an underscore, lowercase; an empty result gives way to the stem.
\<close>

definition slug_spec :: "string \<Rightarrow> string \<Rightarrow> string" where
  "slug_spec ttl stem' =
     (let s = lower (replace_char CHR '' '' CHR ''_''
                (filter (\<lambda>c. isalnum c \<or> c = CHR '' '' \<or> c = CHR ''-'' \<or> c = CHR ''_'') ttl))
      in if s = [] then stem' else s)"

text \<open>What the removal leaves of a title.\<close>

definition kept :: "string \<Rightarrow> string" where
  "kept ttl =
     filter (\<lambda>c. isalnum c \<or> c = CHR '' '' \<or> c = CHR ''-'' \<or> c = CHR ''_'') ttl"

text \<open>A character of a file name: a lowercase letter or a digit, a hyphen or an underscore.\<close>

definition slug_char :: "char \<Rightarrow> bool" where
  "slug_char c = ((isalnum c \<and> lower_char c = c) \<or> c = CHR ''-'' \<or> c = CHR ''_'')"

subsection \<open>What a run writes\<close>

text \<open>
  Lines 64 to 86 of \<open>parse_recipe\<close> without the log: whether the run succeeds once a recipe
  is extracted, and the files it leaves.
\<close>

definition outputs ::
  "'f world \<Rightarrow> ('f Recipe \<Rightarrow> string \<Rightarrow> string) \<Rightarrow> file_arg \<Rightarrow> string \<Rightarrow> 'f Recipe \<Rightarrow> string
     \<Rightarrow> files \<Rightarrow> bool \<times> files" where
  "outputs W render inp out recipe t fs =
     (if \<not> mkdir_ok W out then (False, fs)
      else case safe_title (title recipe) inp of
             Inl e \<Rightarrow> (False, fs)
           | Inr n \<Rightarrow>
               if \<not> writable W (out @ ''/'' @ n @ ''.json'') then (False, fs)
               else if \<not> writable W (out @ ''/'' @ n @ ''.html'')
               then (False, fs(out @ ''/'' @ n @ ''.json'' \<mapsto> json_dump W recipe))
               else (True, fs(out @ ''/'' @ n @ ''.json'' \<mapsto> json_dump W recipe,
                              out @ ''/'' @ n @ ''.html'' \<mapsto> render recipe t)))"

section \<open>Concrete runs\<close>

text \<open>
  Five payloads, with the values \<open>json.loads\<close> gives for them (any other text is taken not
  to parse), floats read as rationals, a recipe text of 156 characters, and the recipe the
  first payload spells out.
\<close>

definition payload_complete :: string where
  \<open>payload_complete = ''{"title": "Tea", "description": "A cup of black tea.", "prep_time": "1 minute", "cook_time": "3 minutes", "servings": "1 cup", "ingredients": [{"name": "tea leaves", "quantity": 1.5, "unit": "tsp"}, {"name": "water", "quantity": 0.25, "unit": "l"}], "instructions": ["Boil the water.", "Steep the leaves."]}''\<close>

definition payload_partial :: string where
  \<open>payload_partial = ''{"instructions": ["Serve hot."]}''\<close>

definition payload_sparse :: string where
  \<open>payload_sparse = ''{"title": "Tea", "ingredients": [{"name": "water"}, {"name": "tea leaves", "quantity": 1.5}]}''\<close>

definition payload_title_only :: string where
  \<open>payload_title_only = ''{"title": "Tea"}''\<close>

definition payload_bad_ingredient :: string where
  \<open>payload_bad_ingredient = ''{"title": "Soup", "ingredients": [5]}''\<close>

definition complete_object :: "(string \<times> rat json) list" where
  "complete_object =
     [(''title'', JStr ''Tea''), (''description'', JStr ''A cup of black tea.''),
      (''prep_time'', JStr ''1 minute''), (''cook_time'', JStr ''3 minutes''),
      (''servings'', JStr ''1 cup''),
      (''ingredients'',
       JArr [JObj [(''name'', JStr ''tea leaves''), (''quantity'', JFloat (3 / 2)),
                   (''unit'', JStr ''tsp'')],
             JObj [(''name'', JStr ''water''), (''quantity'', JFloat (1 / 4)),
                   (''unit'', JStr ''l'')]]),
      (''instructions'', JArr [JStr ''Boil the water.'', JStr ''Steep the leaves.''])]"

definition sparse_items :: "rat json list" where
  "sparse_items =
     [JObj [(''name'', JStr ''water'')],
      JObj [(''name'', JStr ''tea leaves''), (''quantity'', JFloat (3 / 2))]]"

definition sparse_object :: "(string \<times> rat json) list" where
  "sparse_object = [(''title'', JStr ''Tea''), (''ingredients'', JArr sparse_items)]"

definition demo_loads :: "string \<Rightarrow> rat json option" where
  "demo_loads s =
     (if s = payload_complete then Some (JObj complete_object)
      else if s = payload_partial then
        Some (JObj [(''instructions'', JArr [JStr ''Serve hot.''])])
      else if s = payload_sparse then Some (JObj sparse_object)
      else if s = payload_title_only then Some (JObj [(''title'', JStr ''Tea'')])
      else if s = payload_bad_ingredient then
        Some (JObj [(''title'', JStr ''Soup''), (''ingredients'', JArr [JInt 5])])
      else None)"

definition demo_lib :: "rat pylib" where
  "demo_lib =
     \<lparr>json_loads = demo_loads,
      float_bool = (\<lambda>x. x \<noteq> 0),
      float_lax = (\<lambda>v. case v of JInt i \<Rightarrow> Some (of_int i)
                              | JBool b \<Rightarrow> Some (if b then 1 else 0)
                              | _ \<Rightarrow> None)\<rparr>"

definition demo_text :: string where
  "demo_text = ''Tea. A cup of black tea. Prep: 1 minute. Cook: 3 minutes. Serves 1. Ingredients: 1.5 tsp tea leaves, 0.25 l water. Steps: boil the water; steep the leaves. ''"

definition demo_extractor :: RecipeExtractor where
  "demo_extractor = \<lparr>api_key = ''secret'', model = ''gemini-2.5-flash''\<rparr>"

definition demo_request :: lx_request where
  "demo_request =
     \<lparr>text_or_documents = demo_text, model_id = ''gemini-2.5-flash'', request_key = ''secret''\<rparr>"

definition recipe_extraction :: "string \<Rightarrow> Extraction" where
  "recipe_extraction payload = \<lparr>extraction_class = ''Recipe'', extraction_text = payload\<rparr>"

definition returning :: "Extraction list \<Rightarrow> lx_request \<Rightarrow> lx_outcome" where
  "returning es req = LxReturns (Some es)"

definition tea :: "rat Recipe" where
  "tea = \<lparr>title = ''Tea'', description = ''A cup of black tea.'', prep_time = ''1 minute'',
          cook_time = ''3 minutes'', servings = ''1 cup'',
          ingredients = [\<lparr>name = ''tea leaves'', quantity = Some (3 / 2), unit = Some ''tsp''\<rparr>,
                         \<lparr>name = ''water'', quantity = Some (1 / 4), unit = Some ''l''\<rparr>],
          instructions = [''Boil the water.'', ''Steep the leaves.'']\<rparr>"

definition sparse_tea :: "rat Recipe" where
  "sparse_tea = \<lparr>title = ''Tea'', description = [], prep_time = [], cook_time = [],
                 servings = [],
                 ingredients = [\<lparr>name = ''water'', quantity = None, unit = None\<rparr>,
                                \<lparr>name = ''tea leaves'', quantity = Some (3 / 2),
                                 unit = None\<rparr>],
                 instructions = []\<rparr>"

definition plain_tea :: "rat Recipe" where
  "plain_tea = \<lparr>title = ''Tea'', description = [], prep_time = [], cook_time = [],
                servings = [], ingredients = [], instructions = []\<rparr>"

definition demo_world :: "(lx_request \<Rightarrow> lx_outcome) \<Rightarrow> rat world" where
  "demo_world service =
     \<lparr>lib = demo_lib, lx_extract = service,
      json_dump = (\<lambda>r. ''{ title: '' @ title r @ '' }''),
      mkdir_ok = (\<lambda>dir. True), writable = (\<lambda>path. True)\<rparr>"

definition demo_render :: "rat Recipe \<Rightarrow> string \<Rightarrow> string" where
  "demo_render r original = ''<h1>'' @ title r @ ''</h1><pre>'' @ original @ ''</pre>''"

definition demo_files :: files where
  "demo_files = [''recipe.txt'' \<mapsto> demo_text]"

definition demo_env :: "string \<rightharpoonup> string" where
  "demo_env = [''LANGEXTRACT_API_KEY'' \<mapsto> ''secret'']"

definition tea_files :: files where
  "tea_files =
     demo_files(''output/tea.json'' \<mapsto> ''{ title: Tea }'',
                ''output/tea.html'' \<mapsto> ''<h1>Tea</h1><pre>'' @ demo_text @ ''</pre>'')"

section \<open>The concrete runs, evaluated\<close>

lemma payloads_distinct:
  "payload_complete \<noteq> payload_partial" "payload_complete \<noteq> payload_sparse"
  "payload_complete \<noteq> payload_title_only" "payload_complete \<noteq> payload_bad_ingredient"
  "payload_partial \<noteq> payload_sparse" "payload_partial \<noteq> payload_title_only"
  "payload_partial \<noteq> payload_bad_ingredient" "payload_sparse \<noteq> payload_title_only"
  "payload_sparse \<noteq> payload_bad_ingredient" "payload_title_only \<noteq> payload_bad_ingredient"
  by (simp_all add: payload_complete_def payload_partial_def payload_sparse_def
      payload_title_only_def payload_bad_ingredient_def)

lemmas payloads_differ = payloads_distinct payloads_distinct [THEN not_sym]

lemma demo_text_length: "length demo_text = 156" "length (strip demo_text) = 155"
  by (simp_all add: demo_text_def strip_def lstrip_def rstrip_def isspace_def)

lemma demo_request_eq:
  "\<lparr>text_or_documents = demo_text, model_id = model demo_extractor,
    request_key = api_key demo_extractor\<rparr> = demo_request"
  by (simp add: demo_request_def demo_extractor_def)

lemmas conversion_defs =
  convert_def recipe_extraction_def demo_lib_def demo_loads_def recipe_of_dict_def dict_get_def
  dict_get_or_def new_Recipe_def new_Ingredient_def payloads_differ complete_object_def
  sparse_object_def sparse_items_def

lemma convert_complete: "convert demo_lib (recipe_extraction payload_complete) = Built tea"
  by (simp add: conversion_defs tea_def)

lemma convert_partial: "convert demo_lib (recipe_extraction payload_partial) = Skipped"
  by (simp add: conversion_defs)

lemma convert_title_only:
  "convert demo_lib (recipe_extraction payload_title_only) = Built plain_tea"
  by (simp add: conversion_defs plain_tea_def)

lemma convert_bad_ingredient:
  "convert demo_lib (recipe_extraction payload_bad_ingredient) = Failed AttributeError"
  by (simp add: conversion_defs)

lemma convert_sparse: "convert demo_lib (recipe_extraction payload_sparse) = Built sparse_tea"
  by (simp add: conversion_defs sparse_tea_def)

lemma recipe_extraction_fields [simp]:
  "extraction_class (recipe_extraction p) = ''Recipe''"
  "extraction_text (recipe_extraction p) = p"
  by (simp_all add: recipe_extraction_def)

lemma run_complete:
  "extract_recipe demo_lib (returning [recipe_extraction payload_complete]) demo_extractor
     demo_text
   = ([Log INFO (ExtractingFromText 156), LxExtract demo_request,
       Log INFO (SuccessfullyExtracted ''Tea''), Log INFO (IngredientCount 2),
       Log INFO (InstructionCount 2)], Some tea)"
  by (simp add: extract_recipe_def demo_text_length demo_request_eq returning_def convert_complete)
     (simp add: tea_def)

section \<open>Where a returned recipe comes from\<close>

lemma validate_str_Inr: "validate_str v = Inr s \<longleftrightarrow> v = JStr s"
  by (cases v) auto

lemma new_Recipe_Inr:
  "new_Recipe t d p c s ings ins = Inr r \<longleftrightarrow>
     (\<exists>ins'. validate_str_list ins = Inr ins' \<and>
        t = JStr (title r) \<and> d = JStr (description r) \<and> p = JStr (prep_time r) \<and>
        c = JStr (cook_time r) \<and> s = JStr (servings r) \<and> ings = ingredients r \<and>
        ins' = instructions r \<and> Recipe.more r = ())"
  by (cases r) (auto simp: new_Recipe_def validate_str_Inr split: sum.splits)

lemma recipe_of_dict_Built_title:
  assumes "recipe_of_dict L d = Built r"
  shows "map_of d ''title'' = Some (JStr (title r)) \<and> title r \<noteq> []"
  using assms
  by (auto simp: recipe_of_dict_def new_Recipe_Inr dict_get_def dict_get_or_def
      split: if_splits sum.splits option.splits)

lemma extractions_loop_Some:
  "extractions_loop L es = (evs, Some r) \<Longrightarrow>
     \<exists>e \<in> set es. extraction_class e = ''Recipe'' \<and> convert L e = Built r"
proof (induction es arbitrary: evs)
  case Nil
  then show ?case by simp
next
  case (Cons e es)
  then show ?case
    by (auto split: if_splits conversion.splits prod.splits)
qed

lemma extract_recipe_Some:
  "extract_recipe L lx self txt = (evs, Some r) \<Longrightarrow>
     \<exists>es evs'. lx \<lparr>text_or_documents = txt, model_id = model self, request_key = api_key self\<rparr>
                 = LxReturns (Some es) \<and> extractions_loop L es = (evs', Some r)"
  by (auto simp: extract_recipe_def Let_def
      split: if_splits lx_outcome.splits option.splits prod.splits)

lemma convert_Built:
  "convert L e = Built r \<Longrightarrow>
     \<exists>d. json_loads L (extraction_text e) = Some (JObj d) \<and> recipe_of_dict L d = Built r"
  by (auto simp: convert_def split: option.splits json.splits)

lemma extract_recipe_source:
  assumes "extract_recipe L lx self txt = (evs, Some r)"
  shows "\<exists>es e d.
           lx \<lparr>text_or_documents = txt, model_id = model self, request_key = api_key self\<rparr>
             = LxReturns (Some es) \<and>
           e \<in> set es \<and> extraction_class e = ''Recipe'' \<and>
           json_loads L (extraction_text e) = Some (JObj d) \<and> recipe_of_dict L d = Built r"
  using extract_recipe_Some [OF assms] extractions_loop_Some convert_Built by metis

section \<open>The conversion of one payload\<close>

subsection \<open>The ingredient loop\<close>

lemma ingredients_loop_acc:
  "ingredients_loop L acc items =
     (case ingredients_loop L [] items of Inl e \<Rightarrow> Inl e | Inr ings \<Rightarrow> Inr (acc @ ings))"
proof (induction items arbitrary: acc)
  case Nil
  show ?case by simp
next
  case (Cons v vs)
  show ?case
  proof (cases "ingredient_of L v")
    case (Inl e)
    then show ?thesis by simp
  next
    case (Inr i)
    then show ?thesis
      using Cons.IH [of "acc @ [i]"] Cons.IH [of "[i]"]
      by (simp split: sum.splits)
  qed
qed

lemma ingredients_loop_Cons:
  "ingredients_loop L [] (v # vs) =
     (case ingredient_of L v of
        Inl e \<Rightarrow> Inl e
      | Inr i \<Rightarrow> (case ingredients_loop L [] vs of Inl e \<Rightarrow> Inl e | Inr is \<Rightarrow> Inr (i # is)))"
  using ingredients_loop_acc [of L "[i]" vs for i]
  by (simp split: sum.splits)

lemma validate_opt_str_Inr: "(\<exists>u. validate_opt_str v = Inr u) \<longleftrightarrow> unit_ok v"
  by (cases v) (auto simp: unit_ok_def)

lemma validate_opt_float_Inr: "(\<exists>q. validate_opt_float L v = Inr q) \<longleftrightarrow> quantity_ok L v"
  by (cases v) (auto simp: quantity_ok_def split: option.splits)

lemma validate_str_ok: "(\<exists>s. validate_str v = Inr s) \<longleftrightarrow> is_JStr v"
  by (cases v) auto

lemma new_Ingredient_Inr:
  "new_Ingredient L n q u = Inr i \<longleftrightarrow>
     validate_str n = Inr (name i) \<and> validate_opt_float L q = Inr (quantity i) \<and>
     validate_opt_str u = Inr (unit i) \<and> Ingredient.more i = ()"
  by (cases i) (auto simp: new_Ingredient_def split: sum.splits)

lemma new_Ingredient_ok:
  "(\<exists>i. new_Ingredient L n q u = Inr i) \<longleftrightarrow> is_JStr n \<and> quantity_ok L q \<and> unit_ok u"
proof
  assume "\<exists>i. new_Ingredient L n q u = Inr i"
  then obtain n' q' u' where "validate_str n = Inr n'" "validate_opt_float L q = Inr q'"
    "validate_opt_str u = Inr u'"
    by (auto simp: new_Ingredient_def split: sum.splits)
  then show "is_JStr n \<and> quantity_ok L q \<and> unit_ok u"
    using validate_str_ok validate_opt_float_Inr validate_opt_str_Inr by blast
next
  assume "is_JStr n \<and> quantity_ok L q \<and> unit_ok u"
  then obtain n' q' u' where "validate_str n = Inr n'" "validate_opt_float L q = Inr q'"
    "validate_opt_str u = Inr u'"
    using validate_str_ok validate_opt_float_Inr validate_opt_str_Inr by metis
  then show "\<exists>i. new_Ingredient L n q u = Inr i"
    by (simp add: new_Ingredient_def)
qed

lemma ingredient_of_ok: "(\<exists>i. ingredient_of L v = Inr i) \<longleftrightarrow> ingredient_ok L v"
proof (cases v)
  case (JObj ing)
  have "quantity_ok L JNull" "unit_ok JNull"
    by (simp_all add: quantity_ok_def unit_ok_def)
  then show ?thesis
    using JObj
    by (auto simp: new_Ingredient_ok ingredient_ok_def dict_get_def dict_get_or_def
        split: option.splits)
qed (simp_all add: ingredient_ok_def)

lemma ingredients_loop_ok:
  "(\<exists>ings. ingredients_loop L [] items = Inr ings) \<longleftrightarrow> list_all (ingredient_ok L) items"
proof (induction items)
  case Nil
  show ?case by simp
next
  case (Cons v vs)
  show ?case
    using Cons.IH ingredient_of_ok [of L v]
    by (auto simp: ingredients_loop_Cons simp del: ingredients_loop.simps(2)
        split: sum.splits)
qed

lemma ingredient_of_missing:
  "ingredient_of L v = Inr i \<Longrightarrow> missing_defaulted v i"
  by (cases v)
     (auto simp: missing_defaulted_def new_Ingredient_Inr dict_get_def dict_get_or_def)

lemma ingredients_loop_missing:
  "ingredients_loop L [] items = Inr ings \<Longrightarrow> list_all2 missing_defaulted items ings"
proof (induction items arbitrary: ings)
  case Nil
  then show ?case by simp
next
  case (Cons v vs)
  then show ?case
    by (auto simp: ingredients_loop_Cons ingredient_of_missing
        simp del: ingredients_loop.simps(2) split: sum.splits)
qed

subsection \<open>Which objects become a recipe\<close>

lemma recipe_of_dict_Built_iff:
  "recipe_of_dict L d = Built r \<longleftrightarrow>
     truthy L (dict_get d ''title'') \<and>
     (\<exists>items. iterate (dict_get_or d ''ingredients'' (JArr [])) = Inr items \<and>
        ingredients_loop L [] items = Inr (ingredients r)) \<and>
     validate_str_list (dict_get_or d ''instructions'' (JArr [])) = Inr (instructions r) \<and>
     dict_get_or d ''title'' (JStr []) = JStr (title r) \<and>
     dict_get_or d ''description'' (JStr []) = JStr (description r) \<and>
     dict_get_or d ''prep_time'' (JStr []) = JStr (prep_time r) \<and>
     dict_get_or d ''cook_time'' (JStr []) = JStr (cook_time r) \<and>
     dict_get_or d ''servings'' (JStr []) = JStr (servings r) \<and>
     Recipe.more r = ()"
  by (cases r)
     (auto simp: recipe_of_dict_def new_Recipe_def validate_str_Inr split: sum.splits)

lemma validate_str_items_ok:
  "(\<exists>ss. validate_str_items vs = Inr ss) \<longleftrightarrow> list_all is_JStr vs"
proof (induction vs)
  case Nil
  show ?case by simp
next
  case (Cons v vs)
  then show ?case
    by (cases v) (auto split: sum.splits)
qed

lemma validate_str_items_map: "validate_str_items (map JStr ss) = Inr ss"
  by (induction ss) auto

lemma instructions_ok_iff:
  "(\<exists>ss. validate_str_list (dict_get_or d ''instructions'' (JArr [])) = Inr ss)
     \<longleftrightarrow> instructions_ok d"
proof (cases "map_of d ''instructions''")
  case None
  then show ?thesis by (simp add: instructions_ok_def dict_get_or_def)
next
  case (Some v)
  then show ?thesis
    by (cases v) (simp_all add: instructions_ok_def dict_get_or_def validate_str_items_ok)
qed

lemma text_field_ok_iff:
  "(\<exists>s. dict_get_or d k (JStr []) = JStr s) \<longleftrightarrow> text_field_ok d k"
proof (cases "map_of d k")
  case None
  then show ?thesis by (simp add: text_field_ok_def dict_get_or_def)
next
  case (Some v)
  then show ?thesis by (cases v) (simp_all add: text_field_ok_def dict_get_or_def)
qed

lemma title_ok_iff:
  "truthy L (dict_get d ''title'') \<and> (\<exists>s. dict_get_or d ''title'' (JStr []) = JStr s)
     \<longleftrightarrow> title_ok d"
proof (cases "map_of d ''title''")
  case None
  then show ?thesis by (simp add: title_ok_def dict_get_or_def dict_get_def)
next
  case (Some v)
  then show ?thesis by (cases v) (simp_all add: title_ok_def dict_get_or_def dict_get_def)
qed

lemma ingredients_ok_iff:
  "(\<exists>items ings. iterate (dict_get_or d ''ingredients'' (JArr [])) = Inr items \<and>
      ingredients_loop L [] items = Inr ings) \<longleftrightarrow> ingredients_ok L d"
proof (cases "map_of d ''ingredients''")
  case None
  then show ?thesis by (simp add: ingredients_ok_def dict_get_or_def)
next
  case (Some v)
  show ?thesis
  proof (cases v)
    case (JArr items)
    with Some show ?thesis
      by (simp add: ingredients_ok_def dict_get_or_def ingredients_loop_ok)
  next
    case (JStr s)
    with Some show ?thesis
      by (cases s) (simp_all add: ingredients_ok_def dict_get_or_def)
  next
    case (JObj kvs)
    with Some show ?thesis
      by (cases kvs) (simp_all add: ingredients_ok_def dict_get_or_def)
  qed (use Some in \<open>simp_all add: ingredients_ok_def dict_get_or_def\<close>)
qed

lemma recipe_of_dict_ok: "(\<exists>r. recipe_of_dict L d = Built r) \<longleftrightarrow> schema_ok L d"
proof
  assume "\<exists>r. recipe_of_dict L d = Built r"
  then obtain r where r: "recipe_of_dict L d = Built r" ..
  note parts = r [unfolded recipe_of_dict_Built_iff]
  have "title_ok d" using parts title_ok_iff [of L d] by blast
  moreover have "text_field_ok d ''description''" "text_field_ok d ''prep_time''"
    "text_field_ok d ''cook_time''" "text_field_ok d ''servings''"
    using parts text_field_ok_iff [of d] by blast+
  moreover have "ingredients_ok L d" using parts ingredients_ok_iff [of d L] by blast
  moreover have "instructions_ok d" using parts instructions_ok_iff [of d] by blast
  ultimately show "schema_ok L d" by (simp add: schema_ok_def)
next
  assume ok: "schema_ok L d"
  then obtain t where t: "truthy L (dict_get d ''title'')" "dict_get_or d ''title'' (JStr []) = JStr t"
    using title_ok_iff [of L d] by (auto simp: schema_ok_def)
  from ok obtain de p c s where f:
    "dict_get_or d ''description'' (JStr []) = JStr de"
    "dict_get_or d ''prep_time'' (JStr []) = JStr p"
    "dict_get_or d ''cook_time'' (JStr []) = JStr c"
    "dict_get_or d ''servings'' (JStr []) = JStr s"
    using text_field_ok_iff [of d] unfolding schema_ok_def by metis
  from ok obtain items ings where i:
    "iterate (dict_get_or d ''ingredients'' (JArr [])) = Inr items"
    "ingredients_loop L [] items = Inr ings"
    using ingredients_ok_iff [of d L] unfolding schema_ok_def by metis
  from ok obtain ss where ss:
    "validate_str_list (dict_get_or d ''instructions'' (JArr [])) = Inr ss"
    using instructions_ok_iff [of d] unfolding schema_ok_def by metis
  have "recipe_of_dict L d =
          Built \<lparr>title = t, description = de, prep_time = p, cook_time = c, servings = s,
                 ingredients = ings, instructions = ss\<rparr>"
    using t f i ss by (simp add: recipe_of_dict_Built_iff)
  then show "\<exists>r. recipe_of_dict L d = Built r" ..
qed

lemma convert_selectable:
  "extraction_class e = ''Recipe'' \<Longrightarrow> (\<exists>r. convert L e = Built r) \<longleftrightarrow> selectable L e"
  by (auto simp: convert_def selectable_def recipe_of_dict_ok [symmetric]
      split: option.splits json.splits)

lemma selectable_built: "selectable L e \<Longrightarrow> \<exists>r. built (convert L e) = Some r"
  using convert_selectable [of e L] by (auto simp: selectable_def built_def)

lemma extractions_loop_find:
  "snd (extractions_loop L es) =
     (case find (selectable L) es of None \<Rightarrow> None | Some e \<Rightarrow> built (convert L e))"
proof (induction es)
  case Nil
  show ?case by simp
next
  case (Cons e es)
  obtain evs r' where rest: "extractions_loop L es = (evs, r')"
    by (cases "extractions_loop L es")
  with Cons.IH have IH:
    "r' = (case find (selectable L) es of None \<Rightarrow> None | Some e \<Rightarrow> built (convert L e))"
    by simp
  show ?case
  proof (cases "extraction_class e = ''Recipe''")
    case False
    then have "\<not> selectable L e" by (simp add: selectable_def)
    with False rest IH show ?thesis by simp
  next
    case True
    show ?thesis
    proof (cases "convert L e")
      case (Built r)
      then have "selectable L e" using convert_selectable [OF True, of L] by blast
      with True Built show ?thesis by (simp add: built_def)
    next
      case Skipped
      then have "\<not> selectable L e" using convert_selectable [OF True, of L] by auto
      with True Skipped rest IH show ?thesis by simp
    next
      case (Failed x)
      then have "\<not> selectable L e" using convert_selectable [OF True, of L] by auto
      with True Failed rest IH show ?thesis by simp
    qed
  qed
qed

lemma extract_recipe_find:
  assumes "lx \<lparr>text_or_documents = txt, model_id = model self, request_key = api_key self\<rparr>
             = LxReturns (Some es)"
    and "100 \<le> length (strip txt)"
  shows "snd (extract_recipe L lx self txt) =
           (case find (selectable L) es of None \<Rightarrow> None | Some e \<Rightarrow> built (convert L e))"
proof -
  obtain evs r where loop: "extractions_loop L es = (evs, r)"
    by (cases "extractions_loop L es")
  from assms loop have "snd (extract_recipe L lx self txt) = r"
    by (cases r) (simp_all add: extract_recipe_def)
  moreover from loop extractions_loop_find [of L es]
  have "r = (case find (selectable L) es of None \<Rightarrow> None | Some e \<Rightarrow> built (convert L e))"
    by simp
  ultimately show ?thesis by simp
qed

lemma selectable_iff_built:
  "extraction_class e = ''Recipe'' \<Longrightarrow> selectable L e \<longleftrightarrow> built (convert L e) \<noteq> None"
  using convert_selectable [of e L] by (cases "convert L e") (auto simp: built_def)

lemma selectable_demo [simp]:
  "selectable demo_lib (recipe_extraction payload_complete)"
  "\<not> selectable demo_lib (recipe_extraction payload_partial)"
  "selectable demo_lib (recipe_extraction payload_sparse)"
  "selectable demo_lib (recipe_extraction payload_title_only)"
  "\<not> selectable demo_lib (recipe_extraction payload_bad_ingredient)"
  by (simp_all add: selectable_iff_built built_def convert_complete convert_partial
      convert_sparse convert_title_only convert_bad_ingredient)

lemma demo_returning:
  "returning es \<lparr>text_or_documents = demo_text, model_id = model demo_extractor,
                 request_key = api_key demo_extractor\<rparr> = LxReturns (Some es)"
  by (simp add: returning_def)

lemma demo_text_long: "100 \<le> length (strip demo_text)"
  by (simp add: demo_text_length)

lemma demo_find:
  "snd (extract_recipe demo_lib (returning es) demo_extractor demo_text) =
     (case find (selectable demo_lib) es of
        None \<Rightarrow> None
      | Some e \<Rightarrow> built (convert demo_lib e))"
  by (rule extract_recipe_find [where lx = "returning es" and self = demo_extractor,
        OF demo_returning demo_text_long])

subsection \<open>A populated object is converted to the recipe it spells out\<close>

lemma ingredient_of_encoded: "ingredient_encoded v i \<Longrightarrow> ingredient_of L v = Inr i"
  by (cases v; cases i)
     (auto simp: ingredient_encoded_def new_Ingredient_def dict_get_def dict_get_or_def
       split: option.splits)

lemma ingredients_loop_encoded:
  "list_all2 ingredient_encoded items ings \<Longrightarrow> ingredients_loop L [] items = Inr ings"
proof (induction items ings rule: list_all2_induct)
  case Nil
  show ?case by simp
next
  case (Cons v i vs ings)
  then show ?case
    by (simp add: ingredients_loop_Cons ingredient_of_encoded del: ingredients_loop.simps(2))
qed

lemma recipe_of_dict_encoded:
  assumes "recipe_encoded d r"
  shows "recipe_of_dict L d = Built r"
proof -
  from assms obtain items where items: "map_of d ''ingredients'' = Some (JArr items)"
    "list_all2 ingredient_encoded items (ingredients r)"
    by (auto simp: recipe_encoded_def split: option.splits json.splits)
  with assms ingredients_loop_encoded [OF items(2), of L] show ?thesis
    by (simp add: recipe_of_dict_Built_iff recipe_encoded_def dict_get_def dict_get_or_def
        validate_str_items_map)
qed

lemma complete_object_encodes_tea: "recipe_encoded complete_object tea"
  by (simp add: recipe_encoded_def complete_object_def tea_def ingredient_encoded_def)

lemma demo_loads_complete:
  "json_loads demo_lib (extraction_text (recipe_extraction payload_complete))
     = Some (JObj complete_object)"
  by (simp add: demo_lib_def demo_loads_def)

subsection \<open>Fields left out\<close>

lemma recipe_of_dict_defaults:
  assumes "recipe_of_dict L d = Built r"
  shows "(map_of d ''title'' = None \<longrightarrow> title r = []) \<and>
         (map_of d ''description'' = None \<longrightarrow> description r = []) \<and>
         (map_of d ''prep_time'' = None \<longrightarrow> prep_time r = []) \<and>
         (map_of d ''cook_time'' = None \<longrightarrow> cook_time r = []) \<and>
         (map_of d ''servings'' = None \<longrightarrow> servings r = []) \<and>
         (map_of d ''ingredients'' = None \<longrightarrow> ingredients r = []) \<and>
         (map_of d ''instructions'' = None \<longrightarrow> instructions r = [])"
  using assms unfolding recipe_of_dict_Built_iff
  by (auto simp: dict_get_or_def)

lemma run_title_only:
  "extract_recipe demo_lib (returning [recipe_extraction payload_title_only]) demo_extractor
     demo_text
   = ([Log INFO (ExtractingFromText 156), LxExtract demo_request,
       Log INFO (SuccessfullyExtracted ''Tea''), Log INFO (IngredientCount 0),
       Log INFO (InstructionCount 0)], Some plain_tea)"
  by (simp add: extract_recipe_def demo_text_length demo_request_eq returning_def
      convert_title_only)
     (simp add: plain_tea_def)

lemma demo_loads_sparse:
  "json_loads demo_lib (extraction_text (recipe_extraction payload_sparse))
     = Some (JObj sparse_object)"
  by (simp add: demo_lib_def demo_loads_def payloads_differ)

section \<open>The file name\<close>

lemma isalnum_not_isspace: "isalnum c \<Longrightarrow> \<not> isspace c"
  by (auto simp: isalnum_def isspace_def Let_def)

lemma isspace_space: "isspace CHR '' ''" "\<not> isspace CHR ''-''" "\<not> isspace CHR ''_''"
  by (simp_all add: isspace_def)

lemma kept_isspace: "c \<in> set (kept ttl) \<Longrightarrow> isspace c \<longleftrightarrow> c = CHR '' ''"
  using isalnum_not_isspace isspace_space by (auto simp: kept_def)

lemma rstrip_set: "set (rstrip s) \<subseteq> set s"
  using set_dropWhileD [of _ isspace "rev s"] by (auto simp: rstrip_def)

lemma kept_idem: "set s \<subseteq> set (kept ttl) \<Longrightarrow> kept s = s"
  by (auto simp: kept_def filter_id_conv)

lemma rstrip_id: "s = [] \<or> \<not> isspace (last s) \<Longrightarrow> rstrip s = s"
  by (cases s rule: rev_cases) (auto simp: rstrip_def)

lemma safe_title_kept:
  "safe_title ttl f =
     (let s2 = lower (replace_char CHR '' '' CHR ''_'' (rstrip (kept ttl)))
      in if s2 = [] then stem f else Inr s2)"
proof -
  have "(\<lambda>c. isalnum c \<or> c \<in> {CHR '' '', CHR ''-'', CHR ''_''})
          = (\<lambda>c. isalnum c \<or> c = CHR '' '' \<or> c = CHR ''-'' \<or> c = CHR ''_'')"
    by auto
  then show ?thesis by (simp add: safe_title_def kept_def Let_def)
qed

lemma slug_spec_kept:
  "slug_spec ttl st =
     (let s = lower (replace_char CHR '' '' CHR ''_'' (kept ttl)) in if s = [] then st else s)"
  by (simp add: slug_spec_def kept_def)

lemma lower_char_alnum: "isalnum c \<Longrightarrow> isalnum (lower_char c) \<and> lower_char (lower_char c) = lower_char c"
  unfolding isalnum_def lower_char_def Let_def
  by auto

lemma lower_char_punct: "lower_char CHR ''-'' = CHR ''-''" "lower_char CHR ''_'' = CHR ''_''"
  by (simp_all add: lower_char_def)

lemma slug_char_kept:
  "c \<in> set (kept ttl) \<Longrightarrow> slug_char (lower_char (if c = CHR '' '' then CHR ''_'' else c))"
  using lower_char_alnum [of c] lower_char_punct
  by (auto simp: kept_def slug_char_def)

lemma slug_chars:
  "list_all slug_char (lower (replace_char CHR '' '' CHR ''_'' (rstrip (kept ttl))))"
proof -
  have "slug_char (lower_char (if c = CHR '' '' then CHR ''_'' else c))"
    if "c \<in> set (rstrip (kept ttl))" for c
    using that rstrip_set [of "kept ttl"] slug_char_kept [of c ttl] by blast
  then show ?thesis
    by (simp add: list_all_iff lower_def replace_char_def split del: if_split)
qed

section \<open>The run of \<open>parse_recipe\<close>\<close>

lemma json_html_differ: "out @ ''/'' @ n @ ''.json'' \<noteq> out @ ''/'' @ n @ ''.html''"
  by simp

lemma upd_twice:
  "j \<noteq> h \<Longrightarrow> (m(j \<mapsto> a, h \<mapsto> b))(j \<mapsto> a, h \<mapsto> b) = m(j \<mapsto> a, h \<mapsto> b)"
  by (auto simp: fun_eq_iff)

lemma parse_recipe_unreadable:
  "fs (arg_path inp) = None \<Longrightarrow>
     parse_recipe W render inp out key mdl fs =
       (False, fs, [Log INFO (ReadingRecipeFrom (arg_path inp)),
                    Log ERROR (ErrorParsingRecipe OSError)])"
  by (simp add: parse_recipe_def)

lemma parse_recipe_blank:
  "fs (arg_path inp) = Some t \<Longrightarrow> strip t = [] \<Longrightarrow>
     parse_recipe W render inp out key mdl fs =
       (False, fs, [Log INFO (ReadingRecipeFrom (arg_path inp)), Log ERROR InputFileEmpty])"
  by (simp add: parse_recipe_def)

lemma parse_recipe_files:
  "(fst (parse_recipe W render inp out key mdl fs),
    fst (snd (parse_recipe W render inp out key mdl fs))) =
     (case fs (arg_path inp) of
        None \<Rightarrow> (False, fs)
      | Some t \<Rightarrow>
          if strip t = [] then (False, fs)
          else (case snd (extract_recipe (lib W) (lx_extract W)
                            \<lparr>api_key = key, model = mdl\<rparr> t) of
                  None \<Rightarrow> (False, fs)
                | Some recipe \<Rightarrow> outputs W render inp out recipe t fs))"
  by (auto simp: parse_recipe_def outputs_def Let_def
      split: option.splits prod.splits sum.splits)

lemma parse_recipe_log:
  "fs' (arg_path inp) = fs (arg_path inp) \<Longrightarrow>
     snd (snd (parse_recipe W render inp out key mdl fs')) =
     snd (snd (parse_recipe W render inp out key mdl fs))"
  by (auto simp: parse_recipe_def Let_def split: option.splits prod.splits sum.splits)

lemma outputs_again:
  "outputs W render inp out recipe t fs = (ok, fs') \<Longrightarrow>
     outputs W render inp out recipe t fs' = (ok, fs')"
  by (auto simp: outputs_def upd_twice split: if_splits sum.splits)

section \<open>The concrete run of \<open>parse_recipe\<close>\<close>

lemma outputs_json:
  "outputs W render inp out r t fs = (True, fs') \<Longrightarrow>
     \<exists>n. safe_title (title r) inp = Inr n \<and>
         fs' (out @ ''/'' @ n @ ''.json'') = Some (json_dump W r)"
  by (auto simp: outputs_def split: if_splits sum.splits)

lemma parse_recipe_json:
  assumes "parse_recipe W render inp out key mdl fs = (True, fs', evs)"
  shows "\<exists>t r n. fs (arg_path inp) = Some t \<and>
           snd (extract_recipe (lib W) (lx_extract W) \<lparr>api_key = key, model = mdl\<rparr> t) = Some r \<and>
           safe_title (title r) inp = Inr n \<and>
           fs' (out @ ''/'' @ n @ ''.json'') = Some (json_dump W r)"
proof -
  from assms parse_recipe_files [of W render inp out key mdl fs]
  have "(case fs (arg_path inp) of
          None \<Rightarrow> (False, fs)
        | Some t \<Rightarrow>
            if strip t = [] then (False, fs)
            else (case snd (extract_recipe (lib W) (lx_extract W)
                              \<lparr>api_key = key, model = mdl\<rparr> t) of
                    None \<Rightarrow> (False, fs)
                  | Some recipe \<Rightarrow> outputs W render inp out recipe t fs)) = (True, fs')"
    by simp
  then show ?thesis
    using outputs_json [of W render inp out _ _ fs fs']
    by (auto split: option.splits if_splits)
qed

lemma kept_best_tea: "kept ''Best Tea'' = ''Best Tea''"
  by code_simp

lemma slug_best_tea: "slug_spec ''Best Tea'' ''recipe'' = ''best_tea''"
  by code_simp

lemma safe_title_tea: "safe_title ''Tea'' f = Inr ''tea''"
  by code_simp

lemma demo_extractor_eq: "\<lparr>api_key = ''secret'', model = ''gemini-2.5-flash''\<rparr> = demo_extractor"
  by (simp add: demo_extractor_def)

lemma demo_text_not_blank: "strip demo_text \<noteq> []"
  using demo_text_length(2) by auto

lemma demo_run_files:
  "(fst (parse_recipe (demo_world (returning [recipe_extraction payload_complete])) demo_render
           (StrArg ''recipe.txt'') ''output'' ''secret'' ''gemini-2.5-flash'' demo_files),
    fst (snd (parse_recipe (demo_world (returning [recipe_extraction payload_complete]))
                demo_render (StrArg ''recipe.txt'') ''output'' ''secret'' ''gemini-2.5-flash''
                demo_files)))
   = (True, tea_files)"
  by (simp add: parse_recipe_files demo_files_def demo_text_not_blank demo_world_def
      demo_extractor_eq demo_find convert_complete built_def outputs_def tea_files_def
      demo_render_def)
     (simp add: tea_def safe_title_tea demo_render_def)

lemma demo_run_raises:
  "\<not> fst (parse_recipe (demo_world (\<lambda>req. LxRaises ''503 Service Unavailable'')) demo_render
            (StrArg ''recipe.txt'') ''output'' ''secret'' ''gemini-2.5-flash'' demo_files)"
proof -
  have "snd (extract_recipe demo_lib (\<lambda>req. LxRaises ''503 Service Unavailable'')
               \<lparr>api_key = ''secret'', model = ''gemini-2.5-flash''\<rparr> demo_text) = None"
    by (simp add: extract_recipe_def demo_text_length)
  then show ?thesis
    using parse_recipe_files [of "demo_world (\<lambda>req. LxRaises ''503 Service Unavailable'')"
        demo_render "StrArg ''recipe.txt''" "''output''" "''secret''" "''gemini-2.5-flash''"
        demo_files]
    by (simp add: demo_files_def demo_text_not_blank demo_world_def)
qed

section \<open>The claims\<close>

text \<open>
  C10. Whenever \<open>extract_recipe\<close> returns a recipe and not \<open>None\<close>, the recipe's title is a
  string that is not empty: an extraction whose parsed object has no title, or an empty
  one, is skipped before a recipe is built.
\<close>

theorem returned_title_nonempty:
  assumes "extract_recipe L lx self txt = (evs, Some r)"
  shows "title r \<noteq> []"
  using extract_recipe_source [OF assms] recipe_of_dict_Built_title by metis

theorem returned_title_nonempty_witness:
  "extract_recipe demo_lib (returning [recipe_extraction payload_complete]) demo_extractor
     demo_text
   = ([Log INFO (ExtractingFromText 156), LxExtract demo_request,
       Log INFO (SuccessfullyExtracted ''Tea''), Log INFO (IngredientCount 2),
       Log INFO (InstructionCount 2)], Some tea)
   \<and> title tea \<noteq> []"
  using returned_title_nonempty [OF run_complete] run_complete by simp

text \<open>
  C4. For a text whose length, after stripping the whitespace around it, is below 100,
  \<open>extract_recipe\<close> returns \<open>None\<close> and does not call the extraction service: the log holds
  the two messages and no call, and the result is the same whatever the service would do.
\<close>

theorem short_text_returns_None:
  assumes "length (strip txt) < 100"
  shows "extract_recipe L lx self txt =
           ([Log INFO (ExtractingFromText (length txt)), Log WARNING TextTooShort], None)
         \<and> extract_recipe L lx self txt = extract_recipe L lx' self txt
         \<and> (\<forall>req. LxExtract req \<notin> set (fst (extract_recipe L lx self txt)))"
  using assms by (auto simp: extract_recipe_def)

theorem short_text_returns_None_witness:
  "length (strip ''  Tea: boil water, steep.  '') < 100
   \<and> extract_recipe demo_lib (returning [recipe_extraction payload_complete]) demo_extractor
       ''  Tea: boil water, steep.  ''
     = ([Log INFO (ExtractingFromText 27), Log WARNING TextTooShort], None)"
proof -
  have short: "length (strip ''  Tea: boil water, steep.  '') < 100"
    by (simp add: strip_def lstrip_def rstrip_def isspace_def)
  from short_text_returns_None [OF short, where L = demo_lib and self = demo_extractor
      and lx = "returning [recipe_extraction payload_complete]"] short
  show ?thesis by simp
qed








text \<open>
  C5. A recipe that \<open>extract_recipe\<close> returns was built from the object \<open>d\<close> of one of
  the extractions, and every field the object leaves out has its default: the empty
  string for the five text fields, the empty list for the ingredients and the
  instructions.
\<close>
theorem omitted_fields_defaulted:
  assumes "extract_recipe L lx self txt = (evs, Some r)"
  shows "\<exists>es e d.
           lx \<lparr>text_or_documents = txt, model_id = model self, request_key = api_key self\<rparr>
             = LxReturns (Some es) \<and>
           e \<in> set es \<and> json_loads L (extraction_text e) = Some (JObj d) \<and>
           recipe_of_dict L d = Built r \<and>
           (map_of d ''title'' = None \<longrightarrow> title r = []) \<and>
           (map_of d ''description'' = None \<longrightarrow> description r = []) \<and>
           (map_of d ''prep_time'' = None \<longrightarrow> prep_time r = []) \<and>
           (map_of d ''cook_time'' = None \<longrightarrow> cook_time r = []) \<and>
           (map_of d ''servings'' = None \<longrightarrow> servings r = []) \<and>
           (map_of d ''ingredients'' = None \<longrightarrow> ingredients r = []) \<and>
           (map_of d ''instructions'' = None \<longrightarrow> instructions r = [])"
proof -
  from extract_recipe_source [OF assms] obtain es e d where src:
    "lx \<lparr>text_or_documents = txt, model_id = model self, request_key = api_key self\<rparr>
       = LxReturns (Some es)"
    "e \<in> set es" "json_loads L (extraction_text e) = Some (JObj d)"
    "recipe_of_dict L d = Built r"
    by blast
  from recipe_of_dict_defaults [OF src(4)] src show ?thesis
    by (intro exI [of _ es] exI [of _ e] exI [of _ d]) simp
qed

theorem omitted_fields_defaulted_witness:
  "snd (extract_recipe demo_lib (returning [recipe_extraction payload_title_only])
         demo_extractor demo_text) = Some plain_tea
   \<and> recipe_of_dict demo_lib [(''title'', JStr ''Tea'')] = Built plain_tea
   \<and> description plain_tea = [] \<and> prep_time plain_tea = [] \<and> cook_time plain_tea = []
   \<and> servings plain_tea = [] \<and> ingredients plain_tea = [] \<and> instructions plain_tea = []"
proof -
  from omitted_fields_defaulted [OF run_title_only]
  obtain d where "json_loads demo_lib payload_title_only = Some (JObj d)"
    "recipe_of_dict demo_lib d = Built plain_tea"
    "map_of d ''description'' = None \<longrightarrow> description plain_tea = []"
    by (auto simp: returning_def)
  then have "recipe_of_dict demo_lib [(''title'', JStr ''Tea'')] = Built plain_tea"
    by (simp add: demo_lib_def demo_loads_def payloads_differ)
  then show ?thesis
    using recipe_of_dict_defaults [of demo_lib "[(''title'', JStr ''Tea'')]" plain_tea]
      run_title_only
    by simp
qed

text \<open>
  C6. Where the selected payload holds a list of ingredient objects, the run returns a
  recipe with one \<open>Ingredient\<close> for each object, in order, and an object that has no
  \<open>quantity\<close> key or no \<open>unit\<close> key gives an \<open>Ingredient\<close> whose field is \<open>None\<close>.
  The selected payload is one whose fields, where present, fit their declared types
  (\<open>selectable\<close>, through \<open>ingredient_ok\<close>): a missing key is never what raises.
\<close>
theorem missing_quantity_unit_None:
  assumes "lx \<lparr>text_or_documents = txt, model_id = model self, request_key = api_key self\<rparr>
             = LxReturns (Some es)"
    and "100 \<le> length (strip txt)"
    and "find (selectable L) es = Some e"
    and "json_loads L (extraction_text e) = Some (JObj d)"
    and "map_of d ''ingredients'' = Some (JArr items)"
  shows "\<exists>r. snd (extract_recipe L lx self txt) = Some r \<and>
             list_all2 missing_defaulted items (ingredients r)"
proof -
  from assms(3) have "selectable L e" by (auto simp: find_Some_iff)
  then obtain r where r: "convert L e = Built r"
    using convert_selectable [of e L] by (auto simp: selectable_def)
  with assms(4) have "recipe_of_dict L d = Built r"
    by (simp add: convert_def)
  with assms(5) have "ingredients_loop L [] items = Inr (ingredients r)"
    by (simp add: recipe_of_dict_Built_iff dict_get_or_def)
  then have "list_all2 missing_defaulted items (ingredients r)"
    by (rule ingredients_loop_missing)
  moreover have "snd (extract_recipe L lx self txt) = Some r"
    using extract_recipe_find [where lx = lx and self = self and L = L, OF assms(1,2)] assms(3) r by (simp add: built_def)
  ultimately show ?thesis by blast
qed

theorem missing_quantity_unit_None_witness:
  "snd (extract_recipe demo_lib (returning [recipe_extraction payload_sparse]) demo_extractor
         demo_text) = Some sparse_tea
   \<and> list_all2 missing_defaulted sparse_items (ingredients sparse_tea)
   \<and> map quantity (ingredients sparse_tea) = [None, Some (3 / 2)]
   \<and> map unit (ingredients sparse_tea) = [None, None]"
proof -
  have first: "find (selectable demo_lib) [recipe_extraction payload_sparse]
                 = Some (recipe_extraction payload_sparse)"
    by simp
  have items: "map_of sparse_object ''ingredients'' = Some (JArr sparse_items)"
    by (simp add: sparse_object_def)
  have run: "snd (extract_recipe demo_lib (returning [recipe_extraction payload_sparse])
                    demo_extractor demo_text) = Some sparse_tea"
    by (simp add: demo_find convert_sparse built_def)
  from missing_quantity_unit_None [where self = demo_extractor
      and lx = "returning [recipe_extraction payload_sparse]",
      OF demo_returning demo_text_long first demo_loads_sparse items] run
  have "list_all2 missing_defaulted sparse_items (ingredients sparse_tea)"
    by simp
  with run show ?thesis
    by (simp add: sparse_tea_def)
qed

text \<open>
  C3, as amended. For every recipe title and an input file given as a \<open>Path\<close>, the file
  name is obtained by removing every character that is not alphanumeric, a space, a
  hyphen or an underscore, then removing the spaces at the end, turning each space left
  into an underscore and lowercasing; an empty result gives way to the stem of the input
  file. That is the specification's wording applied to the title cut this way, and to the
  title itself whenever what is kept of it does not end in a space. A name that is not the
  stem holds lowercase letters, digits, hyphens and underscores only.
\<close>

theorem safe_title_slug:
  "safe_title ttl (PathArg p st) = Inr (slug_spec (rstrip (kept ttl)) st)
   \<and> (kept ttl = [] \<or> last (kept ttl) \<noteq> CHR '' ''
        \<longrightarrow> safe_title ttl (PathArg p st) = Inr (slug_spec ttl st))
   \<and> (slug_spec (rstrip (kept ttl)) st = st
        \<or> list_all slug_char (slug_spec (rstrip (kept ttl)) st))"
proof -
  have idem: "kept (rstrip (kept ttl)) = rstrip (kept ttl)"
    by (rule kept_idem) (rule rstrip_set)
  then have first: "safe_title ttl (PathArg p st) = Inr (slug_spec (rstrip (kept ttl)) st)"
    by (simp add: safe_title_kept slug_spec_kept Let_def)
  have same: "slug_spec (kept ttl) st = slug_spec ttl st"
    using kept_idem [of "kept ttl" ttl] by (simp add: slug_spec_kept)
  have "rstrip (kept ttl) = kept ttl" if "kept ttl = [] \<or> last (kept ttl) \<noteq> CHR '' ''"
  proof (rule rstrip_id)
    show "kept ttl = [] \<or> \<not> isspace (last (kept ttl))"
      using that kept_isspace [of "last (kept ttl)" ttl] by auto
  qed
  with first same have second:
    "kept ttl = [] \<or> last (kept ttl) \<noteq> CHR '' ''
       \<longrightarrow> safe_title ttl (PathArg p st) = Inr (slug_spec ttl st)"
    by simp
  have third: "slug_spec (rstrip (kept ttl)) st = st
                 \<or> list_all slug_char (slug_spec (rstrip (kept ttl)) st)"
    using slug_chars [of ttl] idem by (simp add: slug_spec_kept Let_def)
  from first second third show ?thesis by blast
qed

theorem safe_title_slug_witness:
  "safe_title ''Best Tea'' (PathArg ''in/recipe.txt'' ''recipe'') = Inr ''best_tea''
   \<and> slug_spec ''Best Tea'' ''recipe'' = ''best_tea''
   \<and> last (kept ''Best Tea'') \<noteq> CHR '' ''"
proof -
  have ends: "kept ''Best Tea'' = [] \<or> last (kept ''Best Tea'') \<noteq> CHR '' ''"
    by (simp add: kept_best_tea)
  with safe_title_slug [of "''Best Tea''" "''in/recipe.txt''" "''recipe''"]
  have "safe_title ''Best Tea'' (PathArg ''in/recipe.txt'' ''recipe'')
          = Inr (slug_spec ''Best Tea'' ''recipe'')"
    by blast
  then show ?thesis
    by (simp add: slug_best_tea kept_best_tea)
qed

text \<open>
  C3 as the specification states it fails on a title whose kept characters end in a
  space: of \<open>Tea (!)\<close> the removal keeps \<open>Tea\<close> and a space, which the code strips before it
  puts underscores, so the file is named \<open>tea\<close> where the stated steps give \<open>tea_\<close>.
\<close>

theorem safe_title_strips_trailing_space:
  "safe_title ''Tea (!)'' (PathArg ''recipe.txt'' ''recipe'') = Inr ''tea''
   \<and> slug_spec ''Tea (!)'' ''recipe'' = ''tea_''"
  by code_simp

text \<open>
  C8. \<open>main\<close> exits with code 0 exactly when the API key is set and \<open>parse_recipe\<close>
  succeeds, and with code 1 otherwise. With the key missing or empty it exits with 1 at
  once: no file is touched and the log holds the one error, no call of the service. An
  exit with 0 means that the input file was read and the extraction returned a recipe.
\<close>

theorem main_exit_code:
  "fst (main W render env fs) =
     (if \<exists>key. env ''LANGEXTRACT_API_KEY'' = Some key \<and> key \<noteq> [] \<and>
               fst (parse_recipe W render (StrArg ''recipe.txt'') ''output'' key
                      ''gemini-2.5-flash'' fs)
      then 0 else 1)
   \<and> (env ''LANGEXTRACT_API_KEY'' = None \<or> env ''LANGEXTRACT_API_KEY'' = Some []
        \<longrightarrow> main W render env fs = (1, fs, [Log ERROR ApiKeyNotProvided]))
   \<and> (fst (main W render env fs) = 0
        \<longrightarrow> (\<exists>key t r. env ''LANGEXTRACT_API_KEY'' = Some key \<and> fs ''recipe.txt'' = Some t \<and>
               snd (extract_recipe (lib W) (lx_extract W)
                      \<lparr>api_key = key, model = ''gemini-2.5-flash''\<rparr> t) = Some r))"
proof -
  have "\<exists>t r. fs ''recipe.txt'' = Some t \<and>
          snd (extract_recipe (lib W) (lx_extract W)
                 \<lparr>api_key = key, model = ''gemini-2.5-flash''\<rparr> t) = Some r"
    if "fst (parse_recipe W render (StrArg ''recipe.txt'') ''output'' key ''gemini-2.5-flash'' fs)"
    for key
    using that parse_recipe_files [of W render "StrArg ''recipe.txt''" "''output''" key
        "''gemini-2.5-flash''" fs]
    by (auto split: option.splits if_splits)
  then show ?thesis
    by (auto simp: main_def split: option.splits prod.splits)
qed

theorem main_exit_code_witness:
  "fst (main (demo_world (returning [recipe_extraction payload_complete])) demo_render demo_env
          demo_files) = 0
   \<and> main (demo_world (returning [recipe_extraction payload_complete])) demo_render Map.empty
       demo_files = (1, demo_files, [Log ERROR ApiKeyNotProvided])
   \<and> fst (main (demo_world (\<lambda>req. LxRaises ''503 Service Unavailable'')) demo_render demo_env
            demo_files) = 1"
proof -
  have key: "demo_env ''LANGEXTRACT_API_KEY'' = Some ''secret''"
    by (simp add: demo_env_def)
  have ok: "fst (parse_recipe (demo_world (returning [recipe_extraction payload_complete]))
                  demo_render (StrArg ''recipe.txt'') ''output'' ''secret''
                  ''gemini-2.5-flash'' demo_files)"
    using demo_run_files by simp
  from main_exit_code [of "demo_world (returning [recipe_extraction payload_complete])"
      demo_render demo_env demo_files] key ok
  have zero: "fst (main (demo_world (returning [recipe_extraction payload_complete]))
                     demo_render demo_env demo_files) = 0"
    by simp
  from main_exit_code [of "demo_world (returning [recipe_extraction payload_complete])"
      demo_render Map.empty demo_files]
  have missing: "main (demo_world (returning [recipe_extraction payload_complete])) demo_render
                   Map.empty demo_files = (1, demo_files, [Log ERROR ApiKeyNotProvided])"
    by simp
  from main_exit_code [of "demo_world (\<lambda>req. LxRaises ''503 Service Unavailable'')"
      demo_render demo_env demo_files] key demo_run_raises
  have one: "fst (main (demo_world (\<lambda>req. LxRaises ''503 Service Unavailable'')) demo_render
                    demo_env demo_files) = 1"
    by simp
  from zero missing one show ?thesis by simp
qed

text \<open>
  C9. A run of \<open>parse_recipe\<close> that is repeated on the files the first run left, with the
  input file unchanged and the same answer of the service, gives the same result and log
  and leaves every file as it was: the JSON file, opened for writing and not for
  appending, holds the same text again. After a run that succeeds that text is what
  \<open>json.dump\<close> writes for the extracted recipe.
\<close>

theorem parse_recipe_idempotent:
  assumes run: "parse_recipe W render inp out key mdl fs = (ok, fs', evs)"
    and same: "fs' (arg_path inp) = fs (arg_path inp)"
  shows "parse_recipe W render inp out key mdl fs' = (ok, fs', evs)
         \<and> (ok \<longrightarrow>
              (\<exists>t r n. fs (arg_path inp) = Some t \<and>
                 snd (extract_recipe (lib W) (lx_extract W)
                        \<lparr>api_key = key, model = mdl\<rparr> t) = Some r \<and>
                 safe_title (title r) inp = Inr n \<and>
                 fs' (out @ ''/'' @ n @ ''.json'') = Some (json_dump W r)))"
proof -
  have log: "snd (snd (parse_recipe W render inp out key mdl fs')) = evs"
    using parse_recipe_log [of fs' inp fs W render out key mdl, OF same] run by simp
  have files: "(fst (parse_recipe W render inp out key mdl fs'),
                fst (snd (parse_recipe W render inp out key mdl fs'))) = (ok, fs')"
  proof -
    from run parse_recipe_files [of W render inp out key mdl fs]
    have first:
      "(case fs (arg_path inp) of
          None \<Rightarrow> (False, fs)
        | Some t \<Rightarrow>
            if strip t = [] then (False, fs)
            else (case snd (extract_recipe (lib W) (lx_extract W)
                              \<lparr>api_key = key, model = mdl\<rparr> t) of
                    None \<Rightarrow> (False, fs)
                  | Some recipe \<Rightarrow> outputs W render inp out recipe t fs)) = (ok, fs')"
      by simp
    show ?thesis
      unfolding parse_recipe_files [of W render inp out key mdl fs'] same
      using first outputs_again
      by (auto split: option.splits if_splits)
  qed
  from log files have again: "parse_recipe W render inp out key mdl fs' = (ok, fs', evs)"
    by (cases "parse_recipe W render inp out key mdl fs'") simp
  have "\<exists>t r n. fs (arg_path inp) = Some t \<and>
           snd (extract_recipe (lib W) (lx_extract W) \<lparr>api_key = key, model = mdl\<rparr> t)
             = Some r \<and>
           safe_title (title r) inp = Inr n \<and>
           fs' (out @ ''/'' @ n @ ''.json'') = Some (json_dump W r)" if ok
    using that run parse_recipe_json [of W render inp out key mdl fs fs' evs] by simp
  with again show ?thesis by blast
qed

theorem parse_recipe_idempotent_witness:
  "fst (parse_recipe (demo_world (returning [recipe_extraction payload_complete])) demo_render
          (StrArg ''recipe.txt'') ''output'' ''secret'' ''gemini-2.5-flash'' demo_files)
   \<and> fst (snd (parse_recipe (demo_world (returning [recipe_extraction payload_complete]))
                 demo_render (StrArg ''recipe.txt'') ''output'' ''secret''
                 ''gemini-2.5-flash'' demo_files)) = tea_files
   \<and> tea_files ''output/tea.json'' = Some ''{ title: Tea }''
   \<and> parse_recipe (demo_world (returning [recipe_extraction payload_complete])) demo_render
        (StrArg ''recipe.txt'') ''output'' ''secret'' ''gemini-2.5-flash'' tea_files
     = parse_recipe (demo_world (returning [recipe_extraction payload_complete])) demo_render
         (StrArg ''recipe.txt'') ''output'' ''secret'' ''gemini-2.5-flash'' demo_files"
proof -
  let ?run = "parse_recipe (demo_world (returning [recipe_extraction payload_complete]))
                demo_render (StrArg ''recipe.txt'') ''output'' ''secret'' ''gemini-2.5-flash''"
  from demo_run_files have ok: "fst (?run demo_files)"
    and files: "fst (snd (?run demo_files)) = tea_files"
    by simp_all
  then have run: "?run demo_files = (True, tea_files, snd (snd (?run demo_files)))"
    by (simp add: prod_eq_iff)
  have same: "tea_files (arg_path (StrArg ''recipe.txt'')) = demo_files (arg_path (StrArg ''recipe.txt''))"
    by (simp add: tea_files_def)
  have json: "tea_files ''output/tea.json'' = Some ''{ title: Tea }''"
    by (simp add: tea_files_def)
  from parse_recipe_idempotent [OF run same] run
  have "?run tea_files = ?run demo_files"
    by simp
  with ok files json show ?thesis
    by simp
qed

end
